theory Spec2Isabelle
  imports Main "HOL-Library.Word"
begin

section \<open>JavaScript strings\<close>

text \<open>
  A JavaScript string is a sequence of UTF-16 code units. Literals of the source are
  ASCII and are written \<open>str ''...''\<close>.
\<close>

type_synonym jsstring = "16 word list"

definition str :: "string \<Rightarrow> jsstring" where
  "str s = map of_char s"

text \<open>The class \<open>\s\<close> of a regular expression: the white space and line terminator
  code points of ECMAScript.\<close>

definition is_whitespace :: "16 word \<Rightarrow> bool" where
  "is_whitespace c \<longleftrightarrow>
     c \<in> set [0x9, 0xA, 0xB, 0xC, 0xD, 0x20, 0xA0, 0x1680, 0x2028, 0x2029, 0x202F,
              0x205F, 0x3000, 0xFEFF]
     \<or> (0x2000 \<le> c \<and> c \<le> 0x200A)"

text \<open>\<open>s.replace(/\s+/g, r)\<close>: scanning from the left, every maximal run of white space
  is one match and is replaced by \<open>r\<close>.\<close>

function replace_ws :: "jsstring \<Rightarrow> jsstring \<Rightarrow> jsstring" where
  "replace_ws r [] = []"
| "replace_ws r (c # cs) =
     (if is_whitespace c then r @ replace_ws r (dropWhile is_whitespace cs)
      else c # replace_ws r cs)"
  by pat_completeness auto
termination
  by (relation "measure (\<lambda>(r, s). length s)")
     (auto simp: less_Suc_eq_le length_dropWhile_le)

text \<open>\<open>s.replace(/ /g, '+')\<close>: every space character becomes a plus sign.\<close>

definition replace_space_plus :: "jsstring \<Rightarrow> jsstring" where
  "replace_space_plus s = concat (map (\<lambda>c. if c = 0x20 then str ''+'' else [c]) s)"

text \<open>\<open>s.indexOf(x)\<close> on an array: the first index holding \<open>x\<close>, or \<open>-1\<close>.\<close>

fun indexOf :: "'a list \<Rightarrow> 'a \<Rightarrow> int" where
  "indexOf [] x = -1"
| "indexOf (y # ys) x =
     (if y = x then 0 else (let i = indexOf ys x in if i < 0 then -1 else i + 1))"

text \<open>\<open>s.split('').filter((x, n, s) => s.indexOf(x) === n).join('')\<close>: the code units
  of \<open>s\<close>, each kept where its index is the index \<open>indexOf\<close> finds.\<close>

definition filter_first_index :: "jsstring \<Rightarrow> jsstring" where
  "filter_first_index s =
     map fst (filter (\<lambda>(x, n). indexOf s x = int n) (zip s [0 ..< length s]))"


text \<open>
  A code unit from \<open>D800\<close> to \<open>DBFF\<close> is a high surrogate, one from \<open>DC00\<close> to \<open>DFFF\<close> a
  low surrogate; a high surrogate followed by a low one is one character outside the
  Basic Multilingual Plane.
\<close>

definition is_high_surrogate :: "16 word \<Rightarrow> bool" where
  "is_high_surrogate c \<longleftrightarrow> 0xD800 \<le> unat c \<and> unat c \<le> 0xDBFF"

definition is_low_surrogate :: "16 word \<Rightarrow> bool" where
  "is_low_surrogate c \<longleftrightarrow> 0xDC00 \<le> unat c \<and> unat c \<le> 0xDFFF"

text \<open>
  The conversion of a string to a \<open>USVString\<close>, which the DOM applies to a value
  assigned to an attribute of that type (\<open>href\<close> of a link is one): every surrogate
  that is not part of a pair is replaced by \<open>U+FFFD\<close>.
\<close>

fun to_USVString :: "jsstring \<Rightarrow> jsstring" where
  "to_USVString [] = []"
| "to_USVString [c] = (if is_high_surrogate c then [0xFFFD]
                       else if is_low_surrogate c then [0xFFFD] else [c])"
| "to_USVString (c # d # cs) =
     (if is_high_surrogate c then
        (if is_low_surrogate d then c # d # to_USVString cs
         else 0xFFFD # to_USVString (d # cs))
      else if is_low_surrogate c then 0xFFFD # to_USVString (d # cs)
      else c # to_USVString (d # cs))"


section \<open>Fonts, elements and the document\<close>

text \<open>A font object of the catalog, with the two properties the code reads.\<close>

record font =
  family :: jsstring
  variants :: "jsstring list"

text \<open>An element, with the properties and attributes the code reads or writes. \<open>href\<close>
  holds a \<open>USVString\<close>, the others any string.\<close>

record element =
  tagName :: jsstring
  eid :: jsstring
  rel :: jsstring
  href :: jsstring
  etype :: jsstring
  title :: jsstring
  innerHTML :: jsstring
  classList :: "jsstring list"

definition createElement :: "jsstring \<Rightarrow> element" where
  "createElement tag =
     \<lparr>tagName = tag, eid = [], rel = [], href = [], etype = [], title = [],
      innerHTML = [], classList = []\<rparr>"

text \<open>
  The document is the sequence of its elements in tree order: the children of
  \<open>document.head\<close>, to which the stylesheet links are appended, and after them the
  elements of the body. The elements the code looks up by id and takes out are
  stylesheet links, which have no children, so the nesting of elements is left out.
\<close>

record document =
  head :: "element list"
  body :: "element list"

text \<open>\<open>document.getElementById(i)\<close>: the first element in tree order whose id is \<open>i\<close>,
  or \<open>null\<close>.\<close>

definition getElementById :: "document \<Rightarrow> jsstring \<Rightarrow> element option" where
  "getElementById doc i =
     (if i = [] then None else find (\<lambda>e. eid e = i) (head doc @ body doc))"

fun remove_first :: "('a \<Rightarrow> bool) \<Rightarrow> 'a list \<Rightarrow> 'a list" where
  "remove_first P [] = []"
| "remove_first P (x # xs) = (if P x then xs else x # remove_first P xs)"

text \<open>\<open>document.getElementById(i).outerHTML = ''\<close>: the element found is taken out of
  the document.\<close>

definition clearOuterHTML :: "document \<Rightarrow> jsstring \<Rightarrow> document" where
  "clearOuterHTML doc i =
     (if \<exists>e \<in> set (head doc). eid e = i
      then doc\<lparr>head := remove_first (\<lambda>e. eid e = i) (head doc)\<rparr>
      else doc\<lparr>body := remove_first (\<lambda>e. eid e = i) (body doc)\<rparr>)"

definition head_appendChild :: "document \<Rightarrow> element \<Rightarrow> document" where
  "head_appendChild doc e = doc\<lparr>head := head doc @ [e]\<rparr>"


section \<open>font-download.js\<close>

text \<open>The variant part both stylesheet URLs share: \<open>:regular\<close> when the font has that
  variant, else the first variant (\<open>undefined\<close> when there is none).\<close>

definition variant_suffix :: "font \<Rightarrow> jsstring" where
  "variant_suffix f =
     (if str ''regular'' \<in> set (variants f) then str '':regular''
      else str '':'' @ (case variants f of [] \<Rightarrow> str ''undefined'' | v # _ \<Rightarrow> v))"

definition fullFontUrl :: "font \<Rightarrow> jsstring" where
  "fullFontUrl f =
     str ''https://fonts.googleapis.com/css?family='' @ replace_space_plus (family f)
       @ variant_suffix f"

definition downloadFullFont :: "font \<Rightarrow> jsstring \<Rightarrow> document \<Rightarrow> document" where
  "downloadFullFont f fontId doc =
     head_appendChild doc
       ((createElement (str ''link''))
          \<lparr>eid := str ''font-full-'' @ fontId, rel := str ''stylesheet'',
           href := to_USVString (fullFontUrl f)\<rparr>)"

definition downloadChars :: "font \<Rightarrow> jsstring" where
  "downloadChars f = filter_first_index (replace_ws [] (family f))"

definition previewFontUrl :: "font \<Rightarrow> jsstring" where
  "previewFontUrl f =
     str ''https://fonts.googleapis.com/css?family='' @ replace_space_plus (family f)
       @ variant_suffix f @ str ''&text='' @ downloadChars f"

definition downloadPreviewFont :: "font \<Rightarrow> jsstring \<Rightarrow> document \<Rightarrow> document" where
  "downloadPreviewFont f fontId doc =
     head_appendChild doc
       ((createElement (str ''link''))
          \<lparr>eid := str ''font-preview-'' @ fontId, rel := str ''stylesheet'',
           href := to_USVString (previewFontUrl f)\<rparr>)"

text \<open>
  The font id, as each of the two functions computes it in its first line.
  \<open>toLowerCase\<close> is the method of the JavaScript runtime; the functions take it as an
  argument, so what is proved of them holds for whatever it computes.
\<close>

definition checkFullFont_fontId :: "(jsstring \<Rightarrow> jsstring) \<Rightarrow> jsstring \<Rightarrow> jsstring" where
  "checkFullFont_fontId toLowerCase fam = toLowerCase (replace_ws (str ''-'') fam)"

definition checkPreviewFont_fontId :: "(jsstring \<Rightarrow> jsstring) \<Rightarrow> jsstring \<Rightarrow> jsstring" where
  "checkPreviewFont_fontId toLowerCase fam = toLowerCase (replace_ws (str ''-'') fam)"

text \<open>
  \<open>isFontAvailable\<close> is imported from a module that is not part of the sources at hand:
  it is an argument, a predicate on the family name.
\<close>

definition checkFullFont ::
  "(jsstring \<Rightarrow> jsstring) \<Rightarrow> (jsstring \<Rightarrow> bool) \<Rightarrow> font \<Rightarrow> document \<Rightarrow> document" where
  "checkFullFont toLowerCase isFontAvailable f doc =
     (let fontId = checkFullFont_fontId toLowerCase (family f) in
      if getElementById doc (str ''font-preview-'' @ fontId) \<noteq> None then
        downloadFullFont f fontId (clearOuterHTML doc (str ''font-preview-'' @ fontId))
      else if getElementById doc (str ''font-full-'' @ fontId) = None
              \<and> \<not> isFontAvailable (family f) then
        downloadFullFont f fontId doc
      else doc)"

definition checkPreviewFont ::
  "(jsstring \<Rightarrow> jsstring) \<Rightarrow> (jsstring \<Rightarrow> bool) \<Rightarrow> font \<Rightarrow> document \<Rightarrow> document" where
  "checkPreviewFont toLowerCase isFontAvailable f doc =
     (let fontId = checkPreviewFont_fontId toLowerCase (family f) in
      if getElementById doc (str ''font-full-'' @ fontId) = None
         \<and> \<not> isFontAvailable (family f) then
        downloadPreviewFont f fontId doc
      else doc)"


text \<open>A call of one of the two exported functions, with the answer \<open>isFontAvailable\<close>
  gives at that moment (fonts load between calls, so the answer may change).\<close>

datatype call = CheckFullFont font bool | CheckPreviewFont font bool

fun run_call :: "(jsstring \<Rightarrow> jsstring) \<Rightarrow> call \<Rightarrow> document \<Rightarrow> document" where
  "run_call toLowerCase (CheckFullFont f a) doc = checkFullFont toLowerCase (\<lambda>_. a) f doc"
| "run_call toLowerCase (CheckPreviewFont f a) doc = checkPreviewFont toLowerCase (\<lambda>_. a) f doc"

text \<open>The documents a sequence of calls goes through, one after each call.\<close>

fun run_calls :: "(jsstring \<Rightarrow> jsstring) \<Rightarrow> call list \<Rightarrow> document \<Rightarrow> document list" where
  "run_calls toLowerCase [] doc = []"
| "run_calls toLowerCase (c # cs) doc =
     (let d = run_call toLowerCase c doc in d # run_calls toLowerCase cs d)"

fun call_fontId :: "(jsstring \<Rightarrow> jsstring) \<Rightarrow> call \<Rightarrow> jsstring" where
  "call_fontId toLowerCase (CheckFullFont f a) = checkFullFont_fontId toLowerCase (family f)"
| "call_fontId toLowerCase (CheckPreviewFont f a) = checkPreviewFont_fontId toLowerCase (family f)"

fun is_full_call :: "call \<Rightarrow> bool" where
  "is_full_call (CheckFullFont f a) = True"
| "is_full_call (CheckPreviewFont f a) = False"

definition has_preview :: "document \<Rightarrow> jsstring \<Rightarrow> bool" where
  "has_preview doc fontId \<longleftrightarrow> getElementById doc (str ''font-preview-'' @ fontId) \<noteq> None"

definition has_full :: "document \<Rightarrow> jsstring \<Rightarrow> bool" where
  "has_full doc fontId \<longleftrightarrow> getElementById doc (str ''font-full-'' @ fontId) \<noteq> None"

definition has_both :: "document \<Rightarrow> jsstring \<Rightarrow> bool" where
  "has_both doc fontId \<longleftrightarrow> has_preview doc fontId \<and> has_full doc fontId"

definition count_id :: "document \<Rightarrow> jsstring \<Rightarrow> nat" where
  "count_id doc i = length (filter (\<lambda>e. eid e = i) (head doc @ body doc))"

text \<open>A sequence of calls in which \<open>checkFullFont\<close> is never called for the font id
  while the document holds more than one preview link with that id.\<close>

fun guarded :: "(jsstring \<Rightarrow> jsstring) \<Rightarrow> jsstring \<Rightarrow> call list \<Rightarrow> document \<Rightarrow> bool" where
  "guarded toLowerCase fontId [] doc = True"
| "guarded toLowerCase fontId (c # cs) doc =
     ((if is_full_call c \<and> call_fontId toLowerCase c = fontId
       then count_id doc (str ''font-preview-'' @ fontId) \<le> 1 else True)
      \<and> guarded toLowerCase fontId cs (run_call toLowerCase c doc))"


subsection \<open>fetchFontList\<close>

datatype error = Error jsstring | TypeError | SyntaxError | InvalidCharacterError

text \<open>A value \<open>JSON.parse\<close> produces. A number is the bit pattern of its double; an
  object is the list of its own properties.\<close>

datatype json_value =
    JNull
  | JBool bool
  | JNumber "64 word"
  | JString jsstring
  | JArray "json_value list"
  | JObject "(jsstring \<times> json_value) list"

text \<open>A response, with what its \<open>json()\<close> promise settles to: the parsed body, or the
  rejection when the body is not JSON.\<close>

record response =
  json :: "error + json_value"

record request =
  http_method :: jsstring
  url :: jsstring

text \<open>The network: what \<open>window.fetch\<close> settles to for a request (a rejection or a
  response), and the requests sent so far.\<close>

record network =
  respond :: "request \<Rightarrow> error + response"
  sent :: "request list"

definition window_fetch :: "network \<Rightarrow> jsstring \<Rightarrow> network \<times> (error + response)" where
  "window_fetch net u =
     (let rq = \<lparr>http_method = str ''GET'', url = u\<rparr>
      in (net\<lparr>sent := sent net @ [rq]\<rparr>, respond net rq))"

text \<open>\<open>json.items\<close>: reading a property of \<open>null\<close> throws a TypeError; an object gives
  its own property or \<open>undefined\<close> (\<open>None\<close>); a boolean, number, string or array has no
  property of that name.\<close>

fun get_items :: "json_value \<Rightarrow> error + json_value option" where
  "get_items JNull = Inl TypeError"
| "get_items (JObject kvs) = Inr (map_of kvs (str ''items''))"
| "get_items j = Inr None"

text \<open>The asynchronous function: the network afterwards, and what the returned promise
  settles to (\<open>Inl\<close> a rejection, \<open>Inr\<close> the value, \<open>None\<close> for \<open>undefined\<close>).\<close>

definition fetchFontList ::
  "network \<Rightarrow> jsstring \<Rightarrow> network \<times> (error + json_value option)" where
  "fetchFontList net apiKey =
     (let (net', r) = window_fetch net
            (str ''https://www.googleapis.com/webfonts/v1/webfonts?sort=popularity&key=''
               @ apiKey)
      in (net', case r of
                  Inl e \<Rightarrow> Inl e
                | Inr response \<Rightarrow>
                    (case json response of Inl e \<Rightarrow> Inl e | Inr j \<Rightarrow> get_items j)))"


section \<open>FontPicker.js\<close>

subsection \<open>Class lists\<close>

text \<open>
  \<open>classList.add\<close> and \<open>classList.remove\<close> are the methods of the DOM's token list:
  going through the tokens in order, an empty token throws a SyntaxError and a token
  with ASCII white space in it an InvalidCharacterError; otherwise each token is
  appended unless it is there already, or taken out.
\<close>

definition is_ascii_whitespace :: "16 word \<Rightarrow> bool" where
  "is_ascii_whitespace c \<longleftrightarrow> c \<in> set [0x9, 0xA, 0xC, 0xD, 0x20]"

fun validate_tokens :: "jsstring list \<Rightarrow> error option" where
  "validate_tokens [] = None"
| "validate_tokens (t # ts) =
     (if t = [] then Some SyntaxError
      else if \<exists>c \<in> set t. is_ascii_whitespace c then Some InvalidCharacterError
      else validate_tokens ts)"

definition classList_add :: "element \<Rightarrow> jsstring list \<Rightarrow> error + element" where
  "classList_add e ts =
     (case validate_tokens ts of
        Some err \<Rightarrow> Inl err
      | None \<Rightarrow>
          Inr (e\<lparr>classList :=
                   fold (\<lambda>t cl. if t \<in> set cl then cl else cl @ [t]) ts (classList e)\<rparr>))"

definition classList_remove :: "element \<Rightarrow> jsstring list \<Rightarrow> error + element" where
  "classList_remove e ts =
     (case validate_tokens ts of
        Some err \<Rightarrow> Inl err
      | None \<Rightarrow> Inr (e\<lparr>classList := filter (\<lambda>t. t \<notin> set ts) (classList e)\<rparr>))"

definition and_then :: "error + 'a \<Rightarrow> ('a \<Rightarrow> error + 'b) \<Rightarrow> error + 'b" where
  "and_then r k = (case r of Inl e \<Rightarrow> Inl e | Inr x \<Rightarrow> k x)"


subsection \<open>The picker object\<close>

text \<open>
  The class FontManager is not part of the sources at hand. Of a font manager the
  picker reads the active font and the font list; the manager the constructor builds,
  the outcome of its \<open>init\<close> and its \<open>setActiveFont\<close> are arguments below.
\<close>

record fontManager =
  activeFont :: font
  fonts :: "font list"

text \<open>The options object: \<open>name\<close> is the string in its property of that name, \<open>None\<close>
  when it has none.\<close>

record options =
  name :: "jsstring option"

text \<open>What the constructor has set when it calls \<open>generateUI\<close>.\<close>

record picker0 =
  pickerSuffix :: jsstring
  pickerId :: jsstring
  fontManager :: fontManager

datatype child = DropdownButton | FontList

datatype effect =
    FontManager_init
  | FontManager_setActiveFont jsstring
  | Console_error_message jsstring
  | Console_error_value error

text \<open>
  The picker once \<open>generateUI\<close> has run: each object it holds a reference to is a
  field. \<open>fontPickerDiv\<close> is the container found in the document and \<open>appended\<close> lists
  what the picker has appended to it; \<open>dropdownIcon\<close> is the icon the two promise
  handlers hold; \<open>entries\<close> are the buttons of the \<open>li\<close> items appended to \<open>ul\<close>, in
  order, and \<open>activeFontA\<close> is the index of the one referred to (\<open>None\<close> while
  undefined); \<open>onscroll\<close> and \<open>clickListener\<close> tell whether the scroll handler and the
  document's click listener are installed; \<open>effects\<close> records the calls of
  \<open>console.error\<close> and of the font manager's methods.
\<close>

record picker =
  pickerSuffix :: jsstring
  pickerId :: jsstring
  fontManager :: fontManager
  expanded :: bool
  fontPickerDiv :: element
  appended :: "child list"
  dropdownButton :: element
  dropdownFont :: element
  dropdownIcon :: element
  ul :: element
  onscroll :: bool
  entries :: "element list"
  activeFontA :: "nat option"
  clickListener :: bool
  effects :: "effect list"

text \<open>The synchronous part of \<open>generateUI\<close>, up to the call of \<open>init\<close>: \<open>Inl\<close> is the
  exception thrown.\<close>

definition generateUI :: "document \<Rightarrow> picker0 \<Rightarrow> error + picker" where
  "generateUI doc this =
     (case getElementById doc (picker0.pickerId this) of
        None \<Rightarrow>
          Inl (Error (str ''Missing div with id='' @ [0x22] @ picker0.pickerId this @ [0x22]))
      | Some container \<Rightarrow>
          and_then (classList_add (createElement (str ''button'')) [str ''dropdown-button''])
            (\<lambda>button.
          and_then (classList_add
                      ((createElement (str ''p''))
                         \<lparr>innerHTML := family (activeFont (picker0.fontManager this))\<rparr>)
                      [str ''dropdown-font-name''])
            (\<lambda>fontName.
          and_then (classList_add (createElement (str ''p''))
                      [str ''dropdown-icon'', str ''loading''])
            (\<lambda>icon.
          Inr \<lparr>pickerSuffix = picker0.pickerSuffix this,
               pickerId = picker0.pickerId this,
               fontManager = picker0.fontManager this,
               expanded = False,
               fontPickerDiv = container,
               appended = [DropdownButton],
               dropdownButton = button\<lparr>etype := str ''button''\<rparr>,
               dropdownFont = fontName,
               dropdownIcon = icon,
               ul = createElement (str ''ul''),
               onscroll = False,
               entries = [],
               activeFontA = None,
               clickListener = False,
               effects = [FontManager_init]\<rparr>))))"

text \<open>
  The constructor. Its argument \<open>options\<close> is \<open>None\<close> when the caller passes
  \<open>undefined\<close> or \<open>null\<close> (or leaves it out): reading \<open>options.name\<close> then throws a
  TypeError, before anything else is done. \<open>fm\<close> is the font manager that
  \<open>new FontManager\<close> returns.
\<close>

definition FontPicker ::
  "document \<Rightarrow> options option \<Rightarrow> fontManager \<Rightarrow> error + picker" where
  "FontPicker doc options fm =
     (case options of
        None \<Rightarrow> Inl TypeError
      | Some opts \<Rightarrow>
          (let suffix = (case name opts of
                           None \<Rightarrow> []
                         | Some n \<Rightarrow> if n \<noteq> [] then str ''-'' @ n else [])
           in generateUI doc
                \<lparr>picker0.pickerSuffix = suffix,
                 picker0.pickerId = str ''font-picker'' @ suffix,
                 picker0.fontManager = fm\<rparr>))"

definition generateUI_fontId :: "(jsstring \<Rightarrow> jsstring) \<Rightarrow> jsstring \<Rightarrow> jsstring" where
  "generateUI_fontId toLowerCase fontFamily = toLowerCase (replace_ws (str ''-'') fontFamily)"

text \<open>
  The loop of the success handler over the font list. A handler returns the picker as
  it leaves it and the exception it throws, if any: what it has changed before
  throwing stays changed.
\<close>

fun render_entries ::
  "(jsstring \<Rightarrow> jsstring) \<Rightarrow> font list \<Rightarrow> picker \<Rightarrow> picker \<times> error option" where
  "render_entries toLowerCase [] p = (p, None)"
| "render_entries toLowerCase (f # fs) p =
     (let fontFamily = family f;
          fontId = generateUI_fontId toLowerCase fontFamily;
          fontButton = (createElement (str ''button''))
                         \<lparr>etype := str ''button'', innerHTML := fontFamily\<rparr>
      in case classList_add fontButton [str ''font-'' @ fontId @ pickerSuffix p] of
           Inl e \<Rightarrow> (p, Some e)
         | Inr fontButton \<Rightarrow>
             if family f = family (activeFont (fontManager p)) then
               (case classList_add fontButton [str ''active-font''] of
                  Inl e \<Rightarrow> (p, Some e)
                | Inr fontButton \<Rightarrow>
                    render_entries toLowerCase fs
                      (p\<lparr>activeFontA := Some (length (entries p)),
                         entries := entries p @ [fontButton]\<rparr>))
             else render_entries toLowerCase fs (p\<lparr>entries := entries p @ [fontButton]\<rparr>))"

text \<open>The handler passed to \<open>then\<close>.\<close>

definition then_handler :: "(jsstring \<Rightarrow> jsstring) \<Rightarrow> picker \<Rightarrow> picker \<times> error option" where
  "then_handler toLowerCase p =
     (case classList_remove (dropdownIcon p) [str ''loading''] of
        Inl e \<Rightarrow> (p, Some e)
      | Inr icon \<Rightarrow>
          (case classList_add icon [str ''finished''] of
             Inl e \<Rightarrow> (p\<lparr>dropdownIcon := icon\<rparr>, Some e)
           | Inr icon \<Rightarrow>
               (case render_entries toLowerCase (fonts (fontManager p))
                       (p\<lparr>dropdownIcon := icon, onscroll := True\<rparr>) of
                  (p', Some e) \<Rightarrow> (p', Some e)
                | (p', None) \<Rightarrow> (p'\<lparr>appended := appended p' @ [FontList]\<rparr>, None))))"

definition errMessage :: jsstring where
  "errMessage = str ''Error trying to fetch the list of available fonts''"

text \<open>The handler passed to \<open>catch\<close>, with the reason of the rejection.\<close>

definition catch_handler :: "error \<Rightarrow> picker \<Rightarrow> picker \<times> error option" where
  "catch_handler err p =
     (case classList_remove (dropdownIcon p) [str ''loading''] of
        Inl e \<Rightarrow> (p, Some e)
      | Inr icon \<Rightarrow>
          (case classList_add icon [str ''error''] of
             Inl e \<Rightarrow> (p\<lparr>dropdownIcon := icon\<rparr>, Some e)
           | Inr icon \<Rightarrow>
               (p\<lparr>dropdownIcon := icon,
                  effects := effects p @ [Console_error_message errMessage,
                                          Console_error_value err],
                  fontPickerDiv := (fontPickerDiv p)\<lparr>title := errMessage\<rparr>\<rparr>,
                None)))"

text \<open>
  \<open>init().then(...).catch(...)\<close>, once the promise of \<open>init\<close> has settled: with a rejection
  (\<open>Inl\<close>), or with the font manager as \<open>init\<close> leaves it (\<open>Inr\<close>). The handler of \<open>catch\<close>
  also receives what the handler of \<open>then\<close> throws. The result is the picker afterwards
  and the exception that no handler has caught, if any.
\<close>

definition init_settled ::
  "(jsstring \<Rightarrow> jsstring) \<Rightarrow> error + fontManager \<Rightarrow> picker \<Rightarrow> picker \<times> error option" where
  "init_settled toLowerCase outcome p =
     (case outcome of
        Inl err \<Rightarrow> catch_handler err p
      | Inr fm \<Rightarrow>
          (case then_handler toLowerCase (p\<lparr>fontManager := fm\<rparr>) of
             (p', None) \<Rightarrow> (p', None)
           | (p', Some e) \<Rightarrow> catch_handler e p'))"

text \<open>\<open>toggleExpanded\<close>.\<close>

definition toggleExpanded :: "picker \<Rightarrow> picker \<times> error option" where
  "toggleExpanded p =
     (if expanded p then
        (case classList_remove (dropdownButton p) [str ''expanded''] of
           Inl e \<Rightarrow> (p\<lparr>expanded := False\<rparr>, Some e)
         | Inr button \<Rightarrow>
             (case classList_remove (ul p) [str ''expanded''] of
                Inl e \<Rightarrow> (p\<lparr>expanded := False, dropdownButton := button\<rparr>, Some e)
              | Inr list \<Rightarrow>
                  (p\<lparr>expanded := False, dropdownButton := button, ul := list,
                     clickListener := False\<rparr>, None)))
      else
        (case classList_add (dropdownButton p) [str ''expanded''] of
           Inl e \<Rightarrow> (p\<lparr>expanded := True\<rparr>, Some e)
         | Inr button \<Rightarrow>
             (case classList_add (ul p) [str ''expanded''] of
                Inl e \<Rightarrow> (p\<lparr>expanded := True, dropdownButton := button\<rparr>, Some e)
              | Inr list \<Rightarrow>
                  (p\<lparr>expanded := True, dropdownButton := button, ul := list,
                     clickListener := True\<rparr>, None))))"

text \<open>
  \<open>setActiveFont\<close>. The font manager's method of the same name is an argument: it
  returns the manager as it leaves it and the list index. Reading a property of
  \<open>undefined\<close> (no active entry saved, or no \<open>li\<close> at the index) throws a TypeError.
  \<open>activeFontA\<close> is a reference to a button of the list in the source; here it is the
  index the button was appended at or looked up at, so it is always within \<open>entries\<close>.
\<close>

definition setActiveFont ::
  "(fontManager \<Rightarrow> jsstring \<Rightarrow> fontManager \<times> int) \<Rightarrow> jsstring \<Rightarrow> picker
     \<Rightarrow> picker \<times> error option" where
  "setActiveFont fontManager_setActiveFont fontFamily p =
     (let (fm, listIndex) = fontManager_setActiveFont (fontManager p) fontFamily;
          p = p\<lparr>fontManager := fm,
                effects := effects p @ [FontManager_setActiveFont fontFamily]\<rparr>
      in if listIndex \<ge> 0 then
           (let p = p\<lparr>dropdownFont := (dropdownFont p)\<lparr>innerHTML := fontFamily\<rparr>\<rparr>
            in case activeFontA p of
                 None \<Rightarrow> (p, Some TypeError)
               | Some a \<Rightarrow>
                   (case classList_remove (entries p ! a) [str ''active-font''] of
                      Inl e \<Rightarrow> (p, Some e)
                    | Inr old \<Rightarrow>
                        (let p = p\<lparr>entries := (entries p)[a := old]\<rparr>
                         in if nat listIndex < length (entries p) then
                              (let p = p\<lparr>activeFontA := Some (nat listIndex)\<rparr>
                               in case classList_add (entries p ! nat listIndex)
                                         [str ''active-font''] of
                                    Inl e \<Rightarrow> (p, Some e)
                                  | Inr new \<Rightarrow>
                                      (p\<lparr>entries := (entries p)[nat listIndex := new]\<rparr>,
                                       None))
                            else (p, Some TypeError))))
         else (p, None))"


section \<open>What the specification says, and inputs to evaluate the code on\<close>


text \<open>
  The font id in the specification's words: every run of white space replaced by one
  hyphen, then lowercased. The flag tells whether the code unit before was white space.
\<close>

fun runs_to_hyphen :: "bool \<Rightarrow> jsstring \<Rightarrow> jsstring" where
  "runs_to_hyphen in_run [] = []"
| "runs_to_hyphen in_run (c # cs) =
     (if is_whitespace c then
        (if in_run then runs_to_hyphen True cs else str ''-'' @ runs_to_hyphen True cs)
      else c # runs_to_hyphen False cs)"

definition spec_fontId :: "(jsstring \<Rightarrow> jsstring) \<Rightarrow> jsstring \<Rightarrow> jsstring" where
  "spec_fontId toLowerCase fam = toLowerCase (runs_to_hyphen False fam)"

text \<open>A parsed body that lacks \<open>items\<close>: anything but an object with a property of
  that name.\<close>

fun lacks_items :: "json_value \<Rightarrow> bool" where
  "lacks_items (JObject kvs) \<longleftrightarrow> str ''items'' \<notin> set (map fst kvs)"
| "lacks_items j \<longleftrightarrow> True"

text \<open>The id of the container the picker looks for: \<open>font-picker\<close>, or
  \<open>font-picker-<name>\<close> when the options hold a name (the empty string counts as none).\<close>

definition container_id :: "options \<Rightarrow> jsstring" where
  "container_id opts =
     (case name opts of
        None \<Rightarrow> str ''font-picker''
      | Some n \<Rightarrow> if n = [] then str ''font-picker'' else str ''font-picker-'' @ n)"

definition missing_div :: "jsstring \<Rightarrow> error" where
  "missing_div i = Error (str ''Missing div with id='' @ [0x22] @ i @ [0x22])"

text \<open>\<open>toLowerCase\<close> on ASCII strings, where it maps \<open>A\<close> to \<open>Z\<close> to \<open>a\<close> to \<open>z\<close> and
  leaves every other code unit as it is.\<close>

definition ascii_toLowerCase :: "jsstring \<Rightarrow> jsstring" where
  "ascii_toLowerCase s = map (\<lambda>c. if 0x41 \<le> c \<and> c \<le> 0x5A then c + 0x20 else c) s"

definition roboto :: font where
  "roboto = \<lparr>family = str ''Roboto'', variants = [str ''regular'']\<rparr>"

definition open_sans :: font where
  "open_sans = \<lparr>family = str ''Open Sans'', variants = [str ''300'', str ''regular'']\<rparr>"

definition empty_document :: document where
  "empty_document = \<lparr>head = [], body = []\<rparr>"

text \<open>The answer of an API that refuses the key: an object with an \<open>error\<close> property;
  a catalog of no fonts; and the body \<open>null\<close>.\<close>

definition network_of :: "json_value \<Rightarrow> network" where
  "network_of j = \<lparr>respond = (\<lambda>rq. Inr \<lparr>json = Inr j\<rparr>), sent = []\<rparr>"

definition error_body :: json_value where
  "error_body = JObject [(str ''error'', JObject [(str ''code'', JNumber 0)])]"

definition empty_catalog :: json_value where
  "empty_catalog = JObject [(str ''kind'', JString (str ''webfonts#webfontList'')),
                            (str ''items'', JArray [])]"

text \<open>A page with the container of a picker named \<open>my picker\<close>, the options and the
  font manager of that picker, before \<open>init\<close> and after it has loaded two fonts.\<close>

definition page :: document where
  "page = \<lparr>head = [],
           body = [(createElement (str ''div''))\<lparr>eid := str ''font-picker-my picker''\<rparr>]\<rparr>"

definition page_options :: options where
  "page_options = \<lparr>name = Some (str ''my picker'')\<rparr>"

text \<open>The same with a picker that has no name.\<close>

definition plain_page :: document where
  "plain_page = \<lparr>head = [],
                 body = [(createElement (str ''div''))\<lparr>eid := str ''font-picker''\<rparr>]\<rparr>"

definition plain_options :: options where
  "plain_options = \<lparr>name = None\<rparr>"

definition manager_new :: fontManager where
  "manager_new = \<lparr>activeFont = roboto, fonts = []\<rparr>"

definition manager_loaded :: fontManager where
  "manager_loaded = \<lparr>activeFont = roboto, fonts = [open_sans, roboto]\<rparr>"

text \<open>The constructor on an options object, and then the promise of \<open>init\<close> settling.\<close>

definition construct_and_settle ::
  "(jsstring \<Rightarrow> jsstring) \<Rightarrow> document \<Rightarrow> options \<Rightarrow> fontManager \<Rightarrow> error + fontManager
     \<Rightarrow> error + picker \<times> error option" where
  "construct_and_settle toLowerCase doc opts fm outcome =
     and_then (FontPicker doc (Some opts) fm)
       (\<lambda>p. Inr (init_settled toLowerCase outcome p))"

text \<open>A font manager's \<open>setActiveFont\<close> that does not find the family.\<close>

definition not_found :: "fontManager \<Rightarrow> jsstring \<Rightarrow> fontManager \<times> int" where
  "not_found fm fam = (fm, -1)"


subsection \<open>Characters, and the query parameters of a URL\<close>

text \<open>
  A character is a Unicode code point; a string holds the UTF-16 code units of its
  characters, an astral character (from \<open>0x10000\<close>) as a high and a low surrogate.
  \<open>is_scalar\<close> holds of the code points that are not surrogates themselves, and
  \<open>is_whitespace_char\<close> of the characters \<open>\s\<close> matches.
\<close>

definition utf16_char :: "nat \<Rightarrow> jsstring" where
  "utf16_char cp =
     (if cp < 0x10000 then [of_nat cp]
      else [of_nat (0xD800 + (cp - 0x10000) div 0x400),
            of_nat (0xDC00 + (cp - 0x10000) mod 0x400)])"



definition is_whitespace_char :: "nat \<Rightarrow> bool" where
  "is_whitespace_char cp \<longleftrightarrow> cp < 0x10000 \<and> is_whitespace (of_nat cp)"























section \<open>Lemmas on strings\<close>

lemma str_Nil_iff [simp]: "str s = [] \<longleftrightarrow> s = []"
  by (simp add: str_def)

lemma of_char_nat_less: "(of_char x :: nat) < 256"
proof -
  have "(of_char x :: nat) mod 256 < 256" by simp
  then show ?thesis by (simp only: of_char_mod_256)
qed

lemma of_char_word_inj: "(of_char c :: 16 word) = of_char d \<longleftrightarrow> c = d"
proof -
  have tb: "take_bit 16 (of_char x :: nat) = of_char x" for x :: char
  proof -
    have "(of_char x :: nat) < 2 ^ 16"
      by (rule less_trans [OF of_char_nat_less]) simp
    then show ?thesis by (rule take_bit_nat_eq_self)
  qed
  have "(of_nat (of_char c :: nat) :: 16 word) = of_nat (of_char d :: nat) \<longleftrightarrow> c = d"
    by (simp add: word_of_nat_eq_iff tb)
  then show ?thesis by (simp only: of_nat_of_char)
qed

lemma str_eq_iff: "str s = str t \<longleftrightarrow> s = t"
  by (simp add: str_def inj_on_def inj_map_eq_map of_char_word_inj)

lemma prefix_neq [simp]:
  "str ''font-full-'' @ x \<noteq> str ''font-preview-'' @ y"
  "str ''font-preview-'' @ x \<noteq> str ''font-full-'' @ y"
  "str ''font-full-'' \<noteq> str ''font-preview-''"
  "str ''font-preview-'' \<noteq> str ''font-full-''"
  by (simp_all add: str_def)



lemma runs_to_hyphen_True:
  "runs_to_hyphen True cs = runs_to_hyphen False (dropWhile is_whitespace cs)"
  by (induction cs) auto

lemma replace_ws_runs: "replace_ws (str ''-'') s = runs_to_hyphen False s"
proof (induction "str ''-''" s rule: replace_ws.induct)
  case 1
  show ?case by simp
next
  case (2 c cs)
  then show ?case by (simp add: runs_to_hyphen_True)
qed










section \<open>Lemmas on elements by id\<close>

lemma getElementById_None_iff:
  "i \<noteq> [] \<Longrightarrow> getElementById doc i = None \<longleftrightarrow> count_id doc i = 0"
  by (auto simp: getElementById_def find_None_iff count_id_def filter_empty_conv)

lemma count_id_append:
  "count_id (head_appendChild doc e) i = count_id doc i + (if eid e = i then 1 else 0)"
  by (simp add: count_id_def head_appendChild_def)

lemma filter_remove_first_other:
  "\<forall>x. P x \<longrightarrow> \<not> Q x \<Longrightarrow> filter Q (remove_first P xs) = filter Q xs"
  by (induction xs) auto

lemma length_filter_remove_first:
  "\<exists>x \<in> set xs. P x \<Longrightarrow> Suc (length (filter P (remove_first P xs))) = length (filter P xs)"
  by (induction xs) auto

lemma count_id_clear_other:
  "i \<noteq> j \<Longrightarrow> count_id (clearOuterHTML doc j) i = count_id doc i"
  by (simp add: count_id_def clearOuterHTML_def filter_remove_first_other)

lemma count_id_clear_same:
  assumes "0 < count_id doc i"
  shows "Suc (count_id (clearOuterHTML doc i) i) = count_id doc i"
proof (cases "\<exists>e \<in> set (head doc). eid e = i")
  case True
  then show ?thesis
    using length_filter_remove_first [of "head doc" "\<lambda>e. eid e = i"]
    by (simp add: count_id_def clearOuterHTML_def)
next
  case False
  with assms have "\<exists>e \<in> set (body doc). eid e = i"
    by (auto simp: count_id_def filter_empty_conv)
  with False show ?thesis
    using length_filter_remove_first [of "body doc" "\<lambda>e. eid e = i"]
    by (simp add: count_id_def clearOuterHTML_def)
qed

lemma count_id_downloadFullFont:
  "count_id (downloadFullFont f fid doc) i
   = count_id doc i + (if str ''font-full-'' @ fid = i then 1 else 0)"
  by (simp add: downloadFullFont_def count_id_append)

lemma count_id_downloadPreviewFont:
  "count_id (downloadPreviewFont f fid doc) i
   = count_id doc i + (if str ''font-preview-'' @ fid = i then 1 else 0)"
  by (simp add: downloadPreviewFont_def count_id_append)

lemma has_both_count:
  "has_both doc fid \<longleftrightarrow>
     0 < count_id doc (str ''font-preview-'' @ fid) \<and> 0 < count_id doc (str ''font-full-'' @ fid)"
  by (simp add: has_both_def has_preview_def has_full_def getElementById_None_iff
           del: not_None_eq)

lemma checkPreviewFont_full_count:
  "count_id (checkPreviewFont lc av f doc) (str ''font-full-'' @ fid)
   = count_id doc (str ''font-full-'' @ fid)"
  by (simp add: checkPreviewFont_def Let_def count_id_downloadPreviewFont)

lemma checkPreviewFont_preview_count:
  "count_id (checkPreviewFont lc av f doc) (str ''font-preview-'' @ fid)
     = count_id doc (str ''font-preview-'' @ fid)
   \<or> count_id doc (str ''font-full-'' @ fid) = 0"
  by (auto simp: checkPreviewFont_def Let_def count_id_downloadPreviewFont
        getElementById_None_iff)

lemma checkFullFont_counts_other:
  "checkFullFont_fontId lc (family f) \<noteq> fid \<Longrightarrow>
     count_id (checkFullFont lc av f doc) (str ''font-preview-'' @ fid)
       = count_id doc (str ''font-preview-'' @ fid)
     \<and> count_id (checkFullFont lc av f doc) (str ''font-full-'' @ fid)
       = count_id doc (str ''font-full-'' @ fid)"
  by (auto simp: checkFullFont_def Let_def count_id_downloadFullFont count_id_clear_other)

lemma checkFullFont_preview_gone:
  "checkFullFont_fontId lc (family f) = fid \<Longrightarrow>
   count_id doc (str ''font-preview-'' @ fid) \<le> 1 \<Longrightarrow>
   count_id (checkFullFont lc av f doc) (str ''font-preview-'' @ fid) = 0"
  using count_id_clear_same [of doc "str ''font-preview-'' @ fid"]
  by (auto simp: checkFullFont_def Let_def count_id_downloadFullFont
        getElementById_None_iff)

lemma run_call_keeps:
  assumes "\<not> has_both doc fid"
    and "is_full_call c \<and> call_fontId lc c = fid
         \<longrightarrow> count_id doc (str ''font-preview-'' @ fid) \<le> 1"
  shows "\<not> has_both (run_call lc c doc) fid"
proof (cases c)
  case (CheckFullFont f a)
  show ?thesis
  proof (cases "checkFullFont_fontId lc (family f) = fid")
    case True
    with assms CheckFullFont have "count_id doc (str ''font-preview-'' @ fid) \<le> 1"
      by simp
    from checkFullFont_preview_gone [OF True this] show ?thesis
      by (simp add: CheckFullFont has_both_count)
  next
    case False
    from checkFullFont_counts_other [OF False] assms(1) show ?thesis
      by (simp add: CheckFullFont has_both_count)
  qed
next
  case (CheckPreviewFont f a)
  with assms(1) checkPreviewFont_preview_count [of lc "\<lambda>_. a" f doc fid]
  show ?thesis
    by (auto simp: has_both_count checkPreviewFont_full_count)
qed

lemmas eval_download =
  getElementById_def checkFullFont_def checkPreviewFont_def checkFullFont_fontId_def
  checkPreviewFont_fontId_def ascii_toLowerCase_def downloadFullFont_def
  downloadPreviewFont_def clearOuterHTML_def head_appendChild_def createElement_def
  str_def is_whitespace_def Let_def has_both_def has_preview_def has_full_def
  empty_document_def roboto_def count_id_def

section \<open>Lemmas on characters and query parameters\<close>

lemma unat_of_nat16: "n < 65536 \<Longrightarrow> unat (of_nat n :: 16 word) = n"
  by (simp add: unat_of_nat)



text \<open>The code units of one character.\<close>

lemma utf16_char_bmp:
  "cp < 0x10000 \<Longrightarrow> utf16_char cp = [of_nat cp] \<and> unat (of_nat cp :: 16 word) = cp"
  by (simp add: utf16_char_def unat_of_nat16)




























lemma whitespace_char_low: "\<not> is_whitespace_char cp \<Longrightarrow> is_whitespace_char cp \<or> P \<Longrightarrow> P"
  by blast














section \<open>The claims about font-download.js\<close>

text \<open>
  Claim C1. For every font, \<open>checkPreviewFont\<close> appends the preview stylesheet link
  (id \<open>font-preview-<fontId>\<close>) to the document head exactly when the document holds
  no element with the id \<open>font-full-<fontId>\<close> and the family is not available
  locally; in every other case it returns the document as it was.
\<close>
theorem checkPreviewFont_injects_iff:
  "(getElementById doc (str ''font-full-'' @ checkPreviewFont_fontId toLowerCase (family f)) = None
      \<and> \<not> isFontAvailable (family f)
    \<longrightarrow> checkPreviewFont toLowerCase isFontAvailable f doc
          = doc\<lparr>head := head doc @
               [(createElement (str ''link''))
                  \<lparr>eid := str ''font-preview-'' @ checkPreviewFont_fontId toLowerCase (family f),
                   rel := str ''stylesheet'',
                   href := to_USVString (previewFontUrl f)\<rparr>]\<rparr>
        \<and> checkPreviewFont toLowerCase isFontAvailable f doc \<noteq> doc)
   \<and> (\<not> (getElementById doc (str ''font-full-'' @ checkPreviewFont_fontId toLowerCase (family f)) = None
          \<and> \<not> isFontAvailable (family f))
      \<longrightarrow> checkPreviewFont toLowerCase isFontAvailable f doc = doc)"
proof -
  have "doc\<lparr>head := head doc @ [e]\<rparr> \<noteq> doc" for e
  proof
    assume "doc\<lparr>head := head doc @ [e]\<rparr> = doc"
    then have "head (doc\<lparr>head := head doc @ [e]\<rparr>) = head doc" by simp
    then show False by simp
  qed
  then show ?thesis
    by (simp add: checkPreviewFont_def Let_def downloadPreviewFont_def head_appendChild_def
          del: not_None_eq)
qed

theorem checkPreviewFont_injects_iff_witness:
  "checkPreviewFont ascii_toLowerCase (\<lambda>_. False) roboto empty_document \<noteq> empty_document
   \<and> checkPreviewFont ascii_toLowerCase (\<lambda>_. True) roboto empty_document = empty_document"
  using checkPreviewFont_injects_iff [of empty_document ascii_toLowerCase roboto "\<lambda>_. False"]
    checkPreviewFont_injects_iff [of empty_document ascii_toLowerCase roboto "\<lambda>_. True"]
  by (simp add: getElementById_def empty_document_def)

text \<open>
  Claim C2, as stated, fails: \<open>checkPreviewFont\<close> does not look for a preview link
  that is already there. From the empty document, two calls of it for a font that is
  not available add two links with the same id; \<open>checkFullFont\<close> then takes out the
  first of them and adds the full link, and the document holds both kinds.
\<close>
theorem duplicate_preview_counterexample:
  "\<not> has_both empty_document (str ''roboto'')
   \<and> has_both
       (last (run_calls ascii_toLowerCase
                [CheckPreviewFont roboto False, CheckPreviewFont roboto False,
                 CheckFullFont roboto False] empty_document))
       (str ''roboto'')"
  by (simp add: eval_download)

text \<open>
  Claim C2, amended. Starting from a document that does not hold both stylesheets of a
  font id, after every call of a sequence of \<open>checkFullFont\<close> and \<open>checkPreviewFont\<close>
  calls (for any fonts, whatever \<open>isFontAvailable\<close> answers at each) the document
  does not hold both, provided \<open>checkFullFont\<close> is never called for that font id
  while the document holds more than one preview link with that id.
\<close>
theorem guarded_calls_never_both:
  "\<not> has_both doc fontId \<Longrightarrow> guarded toLowerCase fontId cs doc \<Longrightarrow>
   \<forall>d \<in> set (run_calls toLowerCase cs doc). \<not> has_both d fontId"
proof (induction cs arbitrary: doc)
  case Nil
  show ?case by simp
next
  case (Cons c cs)
  from Cons.prems have "\<not> has_both (run_call toLowerCase c doc) fontId"
    by (intro run_call_keeps) (auto split: if_splits)
  with Cons show ?case by (simp add: Let_def)
qed

theorem guarded_calls_never_both_witness:
  "\<not> has_both
       (last (run_calls ascii_toLowerCase
                [CheckPreviewFont roboto False, CheckFullFont roboto False,
                 CheckPreviewFont roboto False] empty_document))
       (str ''roboto'')"
proof -
  let ?cs = "[CheckPreviewFont roboto False, CheckFullFont roboto False,
              CheckPreviewFont roboto False]"
  have 1: "\<not> has_both empty_document (str ''roboto'')"
    by (simp add: eval_download)
  have 2: "guarded ascii_toLowerCase (str ''roboto'') ?cs empty_document"
    by (simp add: eval_download)
  have "last (run_calls ascii_toLowerCase ?cs empty_document)
        \<in> set (run_calls ascii_toLowerCase ?cs empty_document)"
    by (intro last_in_set) (simp add: Let_def)
  with guarded_calls_never_both [OF 1 2] show ?thesis by blast
qed




lemma lacks_items_get_items:
  "lacks_items j \<Longrightarrow> j \<noteq> JNull \<Longrightarrow> get_items j = Inr None"
  by (cases j) (simp_all add: map_of_eq_None_iff)

text \<open>
  Claim C4, as stated, fails on the body \<open>null\<close>: it lacks \<open>items\<close>, and reading
  \<open>json.items\<close> throws a TypeError, so the promise is rejected instead of resolving
  to \<open>undefined\<close>.
\<close>
theorem fetchFontList_null_counterexample:
  "lacks_items JNull
   \<and> snd (fetchFontList (network_of JNull) (str ''key'')) = Inl TypeError"
  by (simp add: fetchFontList_def window_fetch_def network_of_def Let_def)

text \<open>
  Claim C4, amended. \<open>fetchFontList\<close> sends one request, a GET of the catalog sorted
  by popularity with the key appended. When the response's body parses to \<open>j\<close>: an
  object with an \<open>items\<close> property gives that property's value unchanged; a body that
  lacks \<open>items\<close> and is not \<open>null\<close> gives \<open>undefined\<close>; the body \<open>null\<close> rejects with a
  TypeError.
\<close>
theorem fetchFontList_items:
  "sent (fst (fetchFontList net apiKey))
     = sent net @
       [\<lparr>http_method = str ''GET'',
         url = str ''https://www.googleapis.com/webfonts/v1/webfonts?sort=popularity&key=''
                 @ apiKey\<rparr>]
   \<and> (respond net
         \<lparr>http_method = str ''GET'',
          url = str ''https://www.googleapis.com/webfonts/v1/webfonts?sort=popularity&key=''
                  @ apiKey\<rparr> = Inr resp
       \<and> json resp = Inr j
      \<longrightarrow> (j = JObject kvs \<and> map_of kvs (str ''items'') = Some v
             \<longrightarrow> snd (fetchFontList net apiKey) = Inr (Some v))
        \<and> (lacks_items j \<and> j \<noteq> JNull \<longrightarrow> snd (fetchFontList net apiKey) = Inr None)
        \<and> (j = JNull \<longrightarrow> snd (fetchFontList net apiKey) = Inl TypeError))"
  by (auto simp: fetchFontList_def window_fetch_def Let_def lacks_items_get_items)

theorem fetchFontList_items_witness:
  "snd (fetchFontList (network_of error_body) (str ''key'')) = Inr None
   \<and> snd (fetchFontList (network_of empty_catalog) (str ''key'')) = Inr (Some (JArray []))
   \<and> length (sent (fst (fetchFontList (network_of error_body) (str ''key'')))) = 1"
proof -
  have e: "lacks_items error_body \<and> error_body \<noteq> JNull"
    by (simp add: error_body_def str_eq_iff)
  have c: "empty_catalog = JObject [(str ''kind'', JString (str ''webfonts#webfontList'')),
                                    (str ''items'', JArray [])]
           \<and> map_of [(str ''kind'', JString (str ''webfonts#webfontList'')),
                      (str ''items'', JArray [])] (str ''items'') = Some (JArray [])"
    by (simp add: empty_catalog_def str_eq_iff)
  show ?thesis
    using fetchFontList_items [of "network_of error_body" "str ''key''"
        "\<lparr>json = Inr error_body\<rparr>" error_body]
      fetchFontList_items [of "network_of empty_catalog" "str ''key''"
        "\<lparr>json = Inr empty_catalog\<rparr>" empty_catalog
        "[(str ''kind'', JString (str ''webfonts#webfontList'')), (str ''items'', JArray [])]"
        "JArray []"]
      e c
    by (simp add: network_of_def)
qed

section \<open>The claims about FontPicker.js\<close>

lemma literal_tokens:
  "validate_tokens [str ''dropdown-button''] = None"
  "validate_tokens [str ''dropdown-font-name''] = None"
  "validate_tokens [str ''dropdown-icon'', str ''loading''] = None"
  "validate_tokens [str ''loading''] = None"
  "validate_tokens [str ''finished''] = None"
  "validate_tokens [str ''error''] = None"
  "validate_tokens [str ''expanded''] = None"
  "validate_tokens [str ''active-font''] = None"
  by (simp_all add: str_def is_ascii_whitespace_def)

lemma generateUI_found:
  "getElementById doc (picker0.pickerId this) = Some container \<Longrightarrow>
   generateUI doc this =
     Inr \<lparr>pickerSuffix = picker0.pickerSuffix this,
          pickerId = picker0.pickerId this,
          fontManager = picker0.fontManager this,
          expanded = False,
          fontPickerDiv = container,
          appended = [DropdownButton],
          dropdownButton = (createElement (str ''button''))
                             \<lparr>etype := str ''button'', classList := [str ''dropdown-button'']\<rparr>,
          dropdownFont = (createElement (str ''p''))
                           \<lparr>innerHTML := family (activeFont (picker0.fontManager this)),
                            classList := [str ''dropdown-font-name'']\<rparr>,
          dropdownIcon = (createElement (str ''p''))
                           \<lparr>classList := [str ''dropdown-icon'', str ''loading'']\<rparr>,
          ul = createElement (str ''ul''),
          onscroll = False,
          entries = [],
          activeFontA = None,
          clickListener = False,
          effects = [FontManager_init]\<rparr>"
  by (simp add: generateUI_def and_then_def classList_add_def literal_tokens str_eq_iff
        createElement_def del: validate_tokens.simps)

lemma generateUI_missing:
  "getElementById doc (picker0.pickerId this) = None \<Longrightarrow>
   generateUI doc this = Inl (missing_div (picker0.pickerId this))"
  by (simp add: generateUI_def missing_div_def)

lemma FontPicker_generateUI:
  "FontPicker doc (Some opts) fm =
     generateUI doc
       \<lparr>picker0.pickerSuffix = (case name opts of None \<Rightarrow> [] | Some n \<Rightarrow> if n \<noteq> [] then str ''-'' @ n else []),
        picker0.pickerId = container_id opts, picker0.fontManager = fm\<rparr>"
  by (simp add: FontPicker_def container_id_def Let_def str_def split: option.splits)





lemma catch_handler_loading:
  "classList (dropdownIcon p) = [str ''dropdown-icon'', str ''loading''] \<Longrightarrow>
   catch_handler err p =
     (p\<lparr>dropdownIcon := (dropdownIcon p)\<lparr>classList := [str ''dropdown-icon'', str ''error'']\<rparr>,
        effects := effects p @ [Console_error_message errMessage, Console_error_value err],
        fontPickerDiv := (fontPickerDiv p)\<lparr>title := errMessage\<rparr>\<rparr>, None)"
  by (simp add: catch_handler_def classList_add_def classList_remove_def literal_tokens
        str_eq_iff del: validate_tokens.simps)

text \<open>
  Claim C5. When \<open>init\<close> rejects after \<open>generateUI\<close> has built the picker, the icon
  goes from \<open>loading\<close> to \<open>error\<close>, the container's title becomes the error message,
  the message and the reason are logged, and nothing else changes: \<open>init\<close> has been
  called once, the list is neither filled nor appended to the container, and no
  exception is left uncaught.
\<close>
theorem rejected_init_shows_error:
  assumes "generateUI doc this = Inr p"
  shows "classList (dropdownIcon p) = [str ''dropdown-icon'', str ''loading'']
    \<and> init_settled toLowerCase (Inl err) p =
        (p\<lparr>dropdownIcon := (dropdownIcon p)\<lparr>classList := [str ''dropdown-icon'', str ''error'']\<rparr>,
           effects := [FontManager_init, Console_error_message errMessage,
                       Console_error_value err],
           fontPickerDiv := (fontPickerDiv p)\<lparr>title := errMessage\<rparr>\<rparr>, None)
    \<and> appended (fst (init_settled toLowerCase (Inl err) p)) = [DropdownButton]
    \<and> entries (fst (init_settled toLowerCase (Inl err) p)) = []"
proof -
  from assms obtain container where c: "getElementById doc (picker0.pickerId this) = Some container"
    by (cases "getElementById doc (picker0.pickerId this)") (auto simp: generateUI_missing)
  from generateUI_found [OF c] assms
  have p: "classList (dropdownIcon p) = [str ''dropdown-icon'', str ''loading'']"
    "effects p = [FontManager_init]" "appended p = [DropdownButton]" "entries p = []"
    by auto
  show ?thesis
    using p by (simp add: init_settled_def catch_handler_loading)
qed

theorem rejected_init_shows_error_witness:
  "map_sum id (\<lambda>r. (classList (dropdownIcon (fst r)), title (fontPickerDiv (fst r)),
                     appended (fst r), snd r))
     (construct_and_settle ascii_toLowerCase plain_page plain_options manager_new (Inl TypeError))
   = Inr ([str ''dropdown-icon'', str ''error''], errMessage, [DropdownButton], None)"
proof -
  have "getElementById plain_page (container_id plain_options) \<noteq> None"
    by (simp add: getElementById_def plain_page_def plain_options_def container_id_def
        createElement_def str_def)
  then obtain p where p: "FontPicker plain_page (Some plain_options) manager_new = Inr p"
    using generateUI_found [of plain_page] by (auto simp: FontPicker_generateUI)
  note r = rejected_init_shows_error [OF p [unfolded FontPicker_generateUI],
      of ascii_toLowerCase TypeError]
  from r have eq: "init_settled ascii_toLowerCase (Inl TypeError) p =
        (p\<lparr>dropdownIcon := (dropdownIcon p)\<lparr>classList := [str ''dropdown-icon'', str ''error'']\<rparr>,
           effects := [FontManager_init, Console_error_message errMessage,
                       Console_error_value TypeError],
           fontPickerDiv := (fontPickerDiv p)\<lparr>title := errMessage\<rparr>\<rparr>, None)"
    by blast
  from r have ap: "appended (fst (init_settled ascii_toLowerCase (Inl TypeError) p)) = [DropdownButton]"
    by blast
  from ap show ?thesis
    by (simp add: construct_and_settle_def and_then_def p eq)
qed

lemmas eval_picker =
  construct_and_settle_def FontPicker_def generateUI_def and_then_def init_settled_def
  then_handler_def catch_handler_def classList_add_def classList_remove_def
  generateUI_fontId_def ascii_toLowerCase_def getElementById_def createElement_def
  page_def page_options_def plain_page_def plain_options_def manager_new_def
  manager_loaded_def roboto_def open_sans_def errMessage_def is_whitespace_def
  is_ascii_whitespace_def str_def Let_def

text \<open>
  Claim C6, on a picker whose name holds a space: \<open>init\<close> succeeds, the handler of
  \<open>then\<close> sets the icon to \<open>finished\<close> and then throws in \<open>classList.add\<close> on the first
  list entry (the class \<open>font-open-sans-my picker\<close> is no valid token), and the
  handler of \<open>catch\<close> adds \<open>error\<close>: the icon ends with both classes.
\<close>
theorem icon_finished_and_error:
  "map_sum id (\<lambda>(p, x). (classList (dropdownIcon p), x))
     (construct_and_settle ascii_toLowerCase page page_options manager_new (Inr manager_loaded))
   = Inr ([str ''dropdown-icon'', str ''finished'', str ''error''], None)"
  by (simp add: eval_picker)

text \<open>The same with a picker that has no name: the icon ends as \<open>finished\<close>, both
  entries are rendered and the list is appended.\<close>

lemma icon_finished_plain:
  "map_sum id (\<lambda>(p, x). (classList (dropdownIcon p), map classList (entries p), activeFontA p, appended p, x))
     (construct_and_settle ascii_toLowerCase plain_page plain_options manager_new (Inr manager_loaded))
   = Inr ([str ''dropdown-icon'', str ''finished''], [[str ''font-open-sans''], [str ''font-roboto'', str ''active-font'']], Some 1, [DropdownButton, FontList], None)"
  by (simp add: eval_picker)

text \<open>
  Where the failure above comes from. The class of a list entry ends in the picker's
  suffix, and the font id in front of it holds no white space; so when the suffix holds
  no ASCII white space (and \<open>toLowerCase\<close> brings none in), no entry's class is refused,
  the handler of \<open>then\<close> throws nothing, and the icon ends as \<open>finished\<close> with every
  font rendered. The other methods never touch the icon.
\<close>

lemma ascii_whitespace_is_whitespace: "is_ascii_whitespace c \<Longrightarrow> is_whitespace c"
  by (auto simp: is_ascii_whitespace_def is_whitespace_def)

lemma replace_ws_hyphen_no_whitespace:
  "c \<in> set (replace_ws (str ''-'') s) \<Longrightarrow> \<not> is_whitespace c"
proof (induction "str ''-''" s arbitrary: c rule: replace_ws.induct)
  case 1
  then show ?case by simp
next
  case (2 a cs)
  have h: "\<not> is_whitespace x" if "x \<in> set (str ''-'')" for x
    using that by (simp add: str_def is_whitespace_def)
  show ?case
  proof (cases "is_whitespace a")
    case True
    with 2 h show ?thesis by auto
  next
    case False
    with 2 show ?thesis by auto
  qed
qed

lemma validate_single:
  "t \<noteq> [] \<Longrightarrow> \<forall>c \<in> set t. \<not> is_ascii_whitespace c \<Longrightarrow> validate_tokens [t] = None"
  by simp


lemma entry_token_valid:
  assumes "\<forall>c \<in> set suffix. \<not> is_ascii_whitespace c"
    and "\<And>s. \<forall>c \<in> set s. \<not> is_ascii_whitespace c
             \<Longrightarrow> \<forall>c \<in> set (toLowerCase s). \<not> is_ascii_whitespace c"
  shows "validate_tokens [str ''font-'' @ generateUI_fontId toLowerCase fam @ suffix] = None"
proof (rule validate_single)
  show "str ''font-'' @ generateUI_fontId toLowerCase fam @ suffix \<noteq> []"
    by simp
  have "\<forall>c \<in> set (replace_ws (str ''-'') fam). \<not> is_ascii_whitespace c"
    using replace_ws_hyphen_no_whitespace ascii_whitespace_is_whitespace by blast
  then have "\<forall>c \<in> set (generateUI_fontId toLowerCase fam). \<not> is_ascii_whitespace c"
    unfolding generateUI_fontId_def by (rule assms(2))
  moreover have "\<forall>c \<in> set (str ''font-''). \<not> is_ascii_whitespace c"
    by (simp add: str_def is_ascii_whitespace_def)
  ultimately show "\<forall>c \<in> set (str ''font-'' @ generateUI_fontId toLowerCase fam @ suffix).
      \<not> is_ascii_whitespace c"
    using assms(1) by auto
qed


lemma classList_add_valid:
  "validate_tokens ts = None \<Longrightarrow> \<exists>e'. classList_add e ts = Inr e'"
  by (simp add: classList_add_def)

lemma render_entries_step:
  assumes "validate_tokens [str ''font-'' @ generateUI_fontId toLowerCase (family f) @ pickerSuffix p]
           = None"
  shows "\<exists>e a. render_entries toLowerCase (f # fs) p
           = render_entries toLowerCase fs (p\<lparr>activeFontA := a, entries := entries p @ [e]\<rparr>)"
proof -
  let ?button = "(createElement (str ''button''))\<lparr>etype := str ''button'', innerHTML := family f\<rparr>"
  from classList_add_valid [OF assms] obtain b1 where
    b1: "classList_add ?button
           [str ''font-'' @ generateUI_fontId toLowerCase (family f) @ pickerSuffix p] = Inr b1"
    by blast
  have "validate_tokens [str ''active-font''] = None"
    by (simp add: str_def is_ascii_whitespace_def)
  from classList_add_valid [OF this] obtain b2 where
    b2: "classList_add b1 [str ''active-font''] = Inr b2"
    by blast
  have eq: "render_entries toLowerCase (f # fs) p
      = (if family f = family (activeFont (fontManager p))
         then render_entries toLowerCase fs
                (p\<lparr>activeFontA := Some (length (entries p)), entries := entries p @ [b2]\<rparr>)
         else render_entries toLowerCase fs (p\<lparr>entries := entries p @ [b1]\<rparr>))"
    by (simp only: render_entries.simps Let_def b1 b2 sum.case)
  have same: "p\<lparr>entries := entries p @ [b1]\<rparr>
              = p\<lparr>activeFontA := activeFontA p, entries := entries p @ [b1]\<rparr>"
    by simp
  show ?thesis
  proof (cases "family f = family (activeFont (fontManager p))")
    case True
    from eq [unfolded if_P [OF True]] show ?thesis by (intro exI)
  next
    case False
    from eq [unfolded if_not_P [OF False]] have "render_entries toLowerCase (f # fs) p
          = render_entries toLowerCase fs
              (p\<lparr>activeFontA := activeFontA p, entries := entries p @ [b1]\<rparr>)"
      by (simp only: same [symmetric])
    then show ?thesis by (intro exI)
  qed
qed

lemma render_entries_valid:
  assumes "\<forall>c \<in> set (pickerSuffix p). \<not> is_ascii_whitespace c"
    and lc: "\<And>s. \<forall>c \<in> set s. \<not> is_ascii_whitespace c
             \<Longrightarrow> \<forall>c \<in> set (toLowerCase s). \<not> is_ascii_whitespace c"
  shows "snd (render_entries toLowerCase fs p) = None
    \<and> dropdownIcon (fst (render_entries toLowerCase fs p)) = dropdownIcon p
    \<and> appended (fst (render_entries toLowerCase fs p)) = appended p
    \<and> fontPickerDiv (fst (render_entries toLowerCase fs p)) = fontPickerDiv p
    \<and> length (entries (fst (render_entries toLowerCase fs p))) = length (entries p) + length fs"
  using assms(1)
proof (induction fs arbitrary: p)
  case Nil
  show ?case by simp
next
  case (Cons f fs)
  from entry_token_valid [where toLowerCase = toLowerCase and fam = "family f",
      OF Cons.prems lc]
  obtain e a where step: "render_entries toLowerCase (f # fs) p
      = render_entries toLowerCase fs (p\<lparr>activeFontA := a, entries := entries p @ [e]\<rparr>)"
    using render_entries_step by blast
  from Cons.prems have "\<forall>c \<in> set (pickerSuffix (p\<lparr>activeFontA := a, entries := entries p @ [e]\<rparr>)).
      \<not> is_ascii_whitespace c"
    by simp
  from Cons.IH [OF this] show ?case
    unfolding step by simp
qed


lemma resolved_init_finished:
  assumes "generateUI doc this = Inr p"
    and "\<forall>c \<in> set (picker0.pickerSuffix this). \<not> is_ascii_whitespace c"
    and lc: "\<And>s. \<forall>c \<in> set s. \<not> is_ascii_whitespace c
             \<Longrightarrow> \<forall>c \<in> set (toLowerCase s). \<not> is_ascii_whitespace c"
  shows "snd (init_settled toLowerCase (Inr fm) p) = None
    \<and> classList (dropdownIcon (fst (init_settled toLowerCase (Inr fm) p)))
        = [str ''dropdown-icon'', str ''finished'']
    \<and> appended (fst (init_settled toLowerCase (Inr fm) p)) = [DropdownButton, FontList]
    \<and> length (entries (fst (init_settled toLowerCase (Inr fm) p))) = length (fonts fm)"
proof -
  from assms(1) obtain container where
    c: "getElementById doc (picker0.pickerId this) = Some container"
    by (cases "getElementById doc (picker0.pickerId this)") (auto simp: generateUI_missing)
  from generateUI_found [OF c] assms(1)
  have p: "classList (dropdownIcon p) = [str ''dropdown-icon'', str ''loading'']"
    "appended p = [DropdownButton]" "entries p = []"
    "pickerSuffix p = picker0.pickerSuffix this"
    by auto
  let ?icon = "(dropdownIcon p)\<lparr>classList := [str ''dropdown-icon'', str ''finished'']\<rparr>"
  let ?q = "p\<lparr>fontManager := fm, dropdownIcon := ?icon, onscroll := True\<rparr>"
  have "\<forall>c \<in> set (pickerSuffix ?q). \<not> is_ascii_whitespace c"
    using assms(2) p(4) by simp
  from render_entries_valid [where toLowerCase = toLowerCase and fs = "fonts fm", OF this lc]
  obtain q' where r: "render_entries toLowerCase (fonts fm) ?q = (q', None)"
    and q': "dropdownIcon q' = ?icon" "appended q' = [DropdownButton]"
      "length (entries q') = length (fonts fm)"
    using p by (cases "render_entries toLowerCase (fonts fm) ?q") simp
  have "then_handler toLowerCase (p\<lparr>fontManager := fm\<rparr>)
        = (q'\<lparr>appended := appended q' @ [FontList]\<rparr>, None)"
    using p(1) r
    by (simp add: then_handler_def classList_add_def classList_remove_def literal_tokens
          str_eq_iff del: validate_tokens.simps)
  then show ?thesis
    using q' by (simp add: init_settled_def)
qed

lemma methods_keep_icon:
  "dropdownIcon (fst (toggleExpanded p)) = dropdownIcon p"
  "dropdownIcon (fst (setActiveFont fontManager_setActiveFont fontFamily p)) = dropdownIcon p"
  by (simp_all add: toggleExpanded_def setActiveFont_def Let_def
        split: sum.splits prod.splits option.splits)

text \<open>
  Claim C8. For every family, the font id of \<open>checkFullFont\<close>, that of
  \<open>checkPreviewFont\<close> and that of \<open>generateUI\<close> are the same string: the family with
  every run of white space replaced by one hyphen, then lowercased.
\<close>
theorem fontId_agree:
  "checkFullFont_fontId toLowerCase fam = spec_fontId toLowerCase fam
   \<and> checkPreviewFont_fontId toLowerCase fam = spec_fontId toLowerCase fam
   \<and> generateUI_fontId toLowerCase fam = spec_fontId toLowerCase fam"
  by (simp add: checkFullFont_fontId_def checkPreviewFont_fontId_def generateUI_fontId_def
        spec_fontId_def replace_ws_runs)

text \<open>
  Claim C10. When the font manager's \<open>setActiveFont\<close> returns a negative index, the
  picker's \<open>setActiveFont\<close> throws nothing and changes nothing of the user interface:
  the name shown in the dropdown button, the list entries with their classes and the
  entry referred to as active stay as they were.
\<close>
theorem setActiveFont_negative_unchanged:
  assumes "snd (fontManager_setActiveFont (fontManager p) fontFamily) < 0"
  shows "setActiveFont fontManager_setActiveFont fontFamily p =
     (p\<lparr>fontManager := fst (fontManager_setActiveFont (fontManager p) fontFamily),
        effects := effects p @ [FontManager_setActiveFont fontFamily]\<rparr>, None)
   \<and> dropdownFont (fst (setActiveFont fontManager_setActiveFont fontFamily p)) = dropdownFont p
   \<and> entries (fst (setActiveFont fontManager_setActiveFont fontFamily p)) = entries p
   \<and> activeFontA (fst (setActiveFont fontManager_setActiveFont fontFamily p)) = activeFontA p"
  using assms
  by (cases "fontManager_setActiveFont (fontManager p) fontFamily")
     (simp add: setActiveFont_def Let_def)

theorem setActiveFont_negative_unchanged_witness:
  "map_sum id (\<lambda>(p, x). (innerHTML (dropdownFont (fst (setActiveFont not_found (str ''Lato'') p))),
                          map classList (entries (fst (setActiveFont not_found (str ''Lato'') p))),
                          snd (setActiveFont not_found (str ''Lato'') p)))
     (construct_and_settle ascii_toLowerCase plain_page plain_options manager_new (Inr manager_loaded))
   = Inr (str ''Roboto'', [[str ''font-open-sans''], [str ''font-roboto'', str ''active-font'']], None)"
proof -
  obtain p x where p: "construct_and_settle ascii_toLowerCase plain_page plain_options manager_new (Inr manager_loaded) = Inr (p, x)"
    and q: "innerHTML (dropdownFont p) = str ''Roboto''"
      "map classList (entries p) = [[str ''font-open-sans''], [str ''font-roboto'', str ''active-font'']]"
    by (simp add: eval_picker)
  have "snd (not_found (fontManager p) (str ''Lato'')) < 0"
    by (simp add: not_found_def)
  from setActiveFont_negative_unchanged [of not_found p "str ''Lato''", OF this] q
  show ?thesis
    by (simp add: p)
qed

end
